theory Spec2Isabelle
  imports Complex_Main "HOL-Library.Option_ord" "HOL-Library.Product_Lexorder"
begin

section \<open>The jobs table (storage.js)\<close>

text \<open>
  A row of the \<^verbatim>\<open>jobs\<close> table. The column \<^verbatim>\<open>id\<close> is \<open>job_id\<close> here, since \<open>id\<close>
  is the identity function of HOL. The column \<^verbatim>\<open>state\<close> only ever receives the five
  literals written in the source; \<^verbatim>\<open>attempts\<close> starts at 0 and is only ever incremented
  or reset to 0, so it is a natural number, while \<^verbatim>\<open>max_retries\<close> is whatever integer
  the caller supplied. A nullable column is an \<open>option\<close>, with \<open>None\<close> for SQL NULL.

  The timestamp columns hold the strings of \<^verbatim>\<open>Date.toISOString\<close>. A timestamp is kept
  here as the millisecond count its string encodes; the strings themselves matter only
  where SQLite compares them, and it compares them as text (see \<open>iso_key\<close> below).
\<close>

datatype job_state = Pending | Processing | Completed | Failed | Dead

type_synonym timestamp = int

record job =
  job_id :: string
  command :: string
  state :: job_state
  attempts :: nat
  max_retries :: int
  created_at :: timestamp
  updated_at :: timestamp
  next_retry_at :: "timestamp option"
  worker_id :: "string option"
  error_message :: "string option"

text \<open>
  The table is the list of its rows in rowid order: \<^verbatim>\<open>INSERT\<close> appends, \<^verbatim>\<open>UPDATE\<close>
  rewrites rows in place, and no statement of the program deletes a row.
\<close>

type_synonym jobs = "job list"

datatype error =
    MissingId
  | MissingCommand
  | DuplicateId
  | SqliteConstraint
  | RangeError

subsection \<open>JavaScript's \<^verbatim>\<open>||\<close> on the values the program applies it to\<close>

text \<open>
  \<^verbatim>\<open>a || b\<close> is \<^verbatim>\<open>b\<close> when \<^verbatim>\<open>a\<close> is falsy: \<^verbatim>\<open>undefined\<close>, \<^verbatim>\<open>null\<close> and \<^verbatim>\<open>NaN\<close>
  (all \<open>None\<close> here), the number 0, and the empty string.
\<close>

definition or_num :: "int option \<Rightarrow> int option \<Rightarrow> int option" where
  "or_num a b = (case a of None \<Rightarrow> b | Some n \<Rightarrow> if n = 0 then b else Some n)"

definition or_nat :: "nat option \<Rightarrow> nat \<Rightarrow> nat" where
  "or_nat a b = (case a of None \<Rightarrow> b | Some n \<Rightarrow> if n = 0 then b else n)"

definition or_str :: "string option \<Rightarrow> string \<Rightarrow> string" where
  "or_str a b = (case a of None \<Rightarrow> b | Some s \<Rightarrow> if s = [] then b else s)"

subsection \<open>Storage: single-row reads and writes\<close>

text \<open>\<^verbatim>\<open>SELECT * FROM jobs WHERE id = ?\<close>, first row or null.\<close>

definition getJob :: "jobs \<Rightarrow> string \<Rightarrow> job option" where
  "getJob s i = find (\<lambda>r. job_id r = i) s"

text \<open>
  The object \<^verbatim>\<open>createJob\<close> receives: every field may be missing; \<^verbatim>\<open>max_retries\<close> may
  also be \<^verbatim>\<open>NaN\<close> (\<open>None\<close>).
\<close>

record job_input =
  in_id :: string
  in_command :: string
  in_state :: "job_state option"
  in_attempts :: "nat option"
  in_max_retries :: "int option"
  in_created_at :: "timestamp option"
  in_updated_at :: "timestamp option"

text \<open>
  \<^verbatim>\<open>createJob\<close>: the \<^verbatim>\<open>INSERT\<close> names seven columns, the other three take their
  default NULL. The primary key makes the statement throw on an id that is present.
  \<open>now\<close> is the clock reading at the top of the function.
\<close>

definition createJob :: "job_input \<Rightarrow> timestamp \<Rightarrow> jobs \<Rightarrow> error + (jobs \<times> job option)" where
  "createJob j now s =
     (if getJob s (in_id j) \<noteq> None then Inl SqliteConstraint
      else
        let row = \<lparr> job_id = in_id j,
                    command = in_command j,
                    state = (case in_state j of None \<Rightarrow> Pending | Some st \<Rightarrow> st),
                    attempts = or_nat (in_attempts j) 0,
                    max_retries = (case or_num (in_max_retries j) (Some 3) of
                                     None \<Rightarrow> 3 | Some n \<Rightarrow> n),
                    created_at = (case in_created_at j of None \<Rightarrow> now | Some t \<Rightarrow> t),
                    updated_at = (case in_updated_at j of None \<Rightarrow> now | Some t \<Rightarrow> t),
                    next_retry_at = None,
                    worker_id = None,
                    error_message = None \<rparr>;
            s' = s @ [row]
        in Inr (s', getJob s' (in_id j)))"

text \<open>
  The \<^verbatim>\<open>updates\<close> object of \<^verbatim>\<open>updateJob\<close>. Its callers pass these five keys and no
  other; a key that is absent is \<open>None\<close>, a key that is present with value
  \<^verbatim>\<open>null\<close> is \<open>Some None\<close>. \<^verbatim>\<open>updated_at\<close> is added by \<^verbatim>\<open>updateJob\<close> itself.
\<close>

record updates =
  set_state :: "job_state option"
  set_attempts :: "nat option"
  set_next_retry_at :: "timestamp option option"
  set_worker_id :: "string option option"
  set_error_message :: "string option option"

definition no_updates :: updates where
  "no_updates = \<lparr> set_state = None, set_attempts = None, set_next_retry_at = None,
                  set_worker_id = None, set_error_message = None \<rparr>"

definition apply_updates :: "updates \<Rightarrow> timestamp \<Rightarrow> job \<Rightarrow> job" where
  "apply_updates u now r =
     r \<lparr> state := (case set_state u of None \<Rightarrow> state r | Some v \<Rightarrow> v),
         attempts := (case set_attempts u of None \<Rightarrow> attempts r | Some v \<Rightarrow> v),
         next_retry_at := (case set_next_retry_at u of None \<Rightarrow> next_retry_at r | Some v \<Rightarrow> v),
         worker_id := (case set_worker_id u of None \<Rightarrow> worker_id r | Some v \<Rightarrow> v),
         error_message := (case set_error_message u of None \<Rightarrow> error_message r | Some v \<Rightarrow> v),
         updated_at := now \<rparr>"

text \<open>\<^verbatim>\<open>UPDATE jobs SET ... WHERE id = ?\<close>, then \<^verbatim>\<open>getJob\<close>.\<close>

definition update_row :: "string \<Rightarrow> updates \<Rightarrow> timestamp \<Rightarrow> job \<Rightarrow> job" where
  "update_row i u now r = (if job_id r = i then apply_updates u now r else r)"

definition updateJob :: "string \<Rightarrow> updates \<Rightarrow> timestamp \<Rightarrow> jobs \<Rightarrow> jobs \<times> job option" where
  "updateJob i u now s = (let s' = map (update_row i u now) s in (s', getJob s' i))"

text \<open>
  \<^verbatim>\<open>lockJob\<close>: one conditional \<^verbatim>\<open>UPDATE\<close>; the result is whether it changed a row.
\<close>

definition lock_matches :: "string \<Rightarrow> job \<Rightarrow> bool" where
  "lock_matches i r = (job_id r = i \<and> state r = Pending)"

definition lock_row :: "string \<Rightarrow> string \<Rightarrow> timestamp \<Rightarrow> job \<Rightarrow> job" where
  "lock_row i workerId now r =
     (if lock_matches i r
      then r \<lparr> state := Processing, worker_id := Some workerId, updated_at := now \<rparr>
      else r)"

definition lockJob :: "string \<Rightarrow> string \<Rightarrow> timestamp \<Rightarrow> jobs \<Rightarrow> jobs \<times> bool" where
  "lockJob i workerId now s =
     (let s' = map (lock_row i workerId now) s;
          changes = length (filter (lock_matches i) s)
      in (s', changes > 0))"

subsection \<open>Storage: the order of timestamps\<close>

text \<open>
  The timestamp columns are \<^verbatim>\<open>TEXT\<close>, so \<^verbatim>\<open>ORDER BY\<close> and \<^verbatim>\<open><=\<close> compare the ISO
  strings byte by byte. \<^verbatim>\<open>toISOString\<close> writes a year from 0 to 9999 with four digits
  (\<^verbatim>\<open>2023-11-14T22:13:20.000Z\<close>) and any other year with a sign and six digits
  (\<^verbatim>\<open>+033712-04-05T...\<close>, \<^verbatim>\<open>-000001-12-31T...\<close>). The byte \<^verbatim>\<open>+\<close> is below \<^verbatim>\<open>-\<close>,
  which is below the digits. So all years from 10000 on come first, in the order of
  time; then the years before 0, by growing distance from 0 and within a year in the
  order of time; then the years 0 to 9999 in the order of time. \<open>iso_key\<close> maps a
  timestamp to a triple whose lexicographic order is that order of the strings.
  The year 10000 starts at 253402300800000 ms and the year 0 at -62167219200000 ms.
\<close>

text \<open>The year of a timestamp in the proleptic Gregorian calendar, UTC.\<close>

definition year_of :: "timestamp \<Rightarrow> int" where
  "year_of t =
     (let z = t div 86400000 + 719468;
          era = z div 146097;
          doe = z - era * 146097;
          yoe = (doe - doe div 1460 + doe div 36524 - doe div 146096) div 365;
          doy = doe - (365 * yoe + yoe div 4 - yoe div 100);
          mp = (5 * doy + 2) div 153
      in yoe + era * 400 + (if mp < 10 then 0 else 1))"

definition iso_key :: "timestamp \<Rightarrow> int \<times> int \<times> int" where
  "iso_key t =
     (if 253402300800000 \<le> t then (0, 0, t)
      else if t < - 62167219200000 then (1, - year_of t, t)
      else (2, 0, t))"

subsection \<open>Storage: the two selection queries\<close>

text \<open>
  \<^verbatim>\<open>ORDER BY key ASC LIMIT 1\<close> over the rows a \<^verbatim>\<open>WHERE\<close> clause keeps. SQL does not
  say which of several rows with the least key comes first; the stable sort takes the
  one inserted first. NULL sorts before every string, as \<open>None\<close> is below every
  \<open>Some\<close>.
\<close>

definition order_by_limit1 :: "(job \<Rightarrow> 'k::linorder) \<Rightarrow> job list \<Rightarrow> job option" where
  "order_by_limit1 key rows = (case sort_key key rows of [] \<Rightarrow> None | r # _ \<Rightarrow> Some r)"

definition getNextPendingJob :: "jobs \<Rightarrow> job option" where
  "getNextPendingJob s =
     order_by_limit1 (\<lambda>r. iso_key (created_at r)) (filter (\<lambda>r. state r = Pending) s)"

text \<open>The \<^verbatim>\<open>WHERE\<close> clause of \<^verbatim>\<open>getRetryableJobs\<close>; \<open>now\<close> is the bound parameter.\<close>

definition retryable :: "timestamp \<Rightarrow> job \<Rightarrow> bool" where
  "retryable now r =
     (state r = Failed \<and> int (attempts r) < max_retries r \<and>
      (case next_retry_at r of None \<Rightarrow> True | Some t \<Rightarrow> iso_key t \<le> iso_key now))"

definition getRetryableJobs :: "timestamp \<Rightarrow> jobs \<Rightarrow> job option" where
  "getRetryableJobs now s =
     order_by_limit1 (\<lambda>r. map_option iso_key (next_retry_at r)) (filter (retryable now) s)"

subsection \<open>Storage: the dead-letter queue\<close>

definition moveToDLQ :: "string \<Rightarrow> timestamp \<Rightarrow> jobs \<Rightarrow> jobs \<times> job option" where
  "moveToDLQ i now s =
     updateJob i (no_updates \<lparr> set_state := Some Dead, set_worker_id := Some None \<rparr>) now s"

definition retry_updates :: updates where
  "retry_updates =
     no_updates \<lparr> set_state := Some Pending, set_attempts := Some 0,
                  set_next_retry_at := Some None, set_error_message := Some None \<rparr>"

definition retryFromDLQ :: "string \<Rightarrow> timestamp \<Rightarrow> jobs \<Rightarrow> jobs \<times> job option" where
  "retryFromDLQ i now s =
     (case getJob s i of
        None \<Rightarrow> (s, None)
      | Some j \<Rightarrow>
          if state j \<noteq> Dead then (s, None)
          else updateJob i retry_updates now s)"

section \<open>Configuration (config.js)\<close>

text \<open>
  The \<^verbatim>\<open>config\<close> table maps a key to a string. \<^verbatim>\<open>getConfig\<close> returns the value or
  \<^verbatim>\<open>null\<close>.
\<close>

type_synonym config = "string \<rightharpoonup> string"

definition getConfig :: "config \<Rightarrow> string \<Rightarrow> string option" where
  "getConfig cfg key = cfg key"

text \<open>
  \<^verbatim>\<open>parseInt(s, 10)\<close> and \<^verbatim>\<open>parseFloat(s)\<close> skip leading white space, read an optional
  sign and the longest prefix that is a numeral, and give \<^verbatim>\<open>NaN\<close> when there is
  none. A number is kept here as the rational it denotes; \<open>None\<close> stands for the
  values that are not finite numbers (\<^verbatim>\<open>NaN\<close>, and for \<^verbatim>\<open>parseFloat\<close> also
  \<^verbatim>\<open>Infinity\<close>). Strings are byte strings, so the white space is the ASCII part of
  JavaScript's.
\<close>

definition is_ws :: "char \<Rightarrow> bool" where
  "is_ws c = ((of_char c :: nat) \<in> {9, 10, 11, 12, 13, 32})"

definition is_digit :: "char \<Rightarrow> bool" where
  "is_digit c = (48 \<le> (of_char c :: nat) \<and> (of_char c :: nat) \<le> 57)"

definition digits_val :: "string \<Rightarrow> nat" where
  "digits_val ds = foldl (\<lambda>a c. 10 * a + ((of_char c :: nat) - 48)) 0 ds"

definition split_sign :: "string \<Rightarrow> bool \<times> string" where
  "split_sign t =
     (case t of
        [] \<Rightarrow> (False, [])
      | c # r \<Rightarrow> if c = CHR ''-'' then (True, r)
                 else if c = CHR ''+'' then (False, r)
                 else (False, t))"

definition parseInt10 :: "string \<Rightarrow> int option" where
  "parseInt10 s =
     (let (neg, u) = split_sign (dropWhile is_ws s);
          z = takeWhile is_digit u
      in if z = [] then None
         else Some (if neg then - int (digits_val z) else int (digits_val z)))"

text \<open>The exponent part of a decimal literal: 0 unless \<^verbatim>\<open>e\<close> is followed by digits.\<close>

definition exponent_part :: "string \<Rightarrow> int" where
  "exponent_part t =
     (case t of
        [] \<Rightarrow> 0
      | c # r \<Rightarrow>
          if c = CHR ''e'' \<or> c = CHR ''E'' then
            (let (neg, u) = split_sign r; z = takeWhile is_digit u
             in if z = [] then 0
                else if neg then - int (digits_val z) else int (digits_val z))
          else 0)"

definition scale10 :: "rat \<Rightarrow> int \<Rightarrow> rat" where
  "scale10 m e = (if 0 \<le> e then m * 10 ^ nat e else m / 10 ^ nat (- e))"

definition parseFloat :: "string \<Rightarrow> rat option" where
  "parseFloat s =
     (let (neg, u) = split_sign (dropWhile is_ws s);
          ip = takeWhile is_digit u;
          r1 = dropWhile is_digit u;
          (fp, r2) = (case r1 of
                        [] \<Rightarrow> ([], [])
                      | c # r \<Rightarrow> if c = CHR ''.''
                                 then (takeWhile is_digit r, dropWhile is_digit r)
                                 else ([], r1))
      in if ip = [] \<and> fp = [] then None
         else
           let m = of_nat (digits_val (ip @ fp)) / 10 ^ length fp;
               v = scale10 m (exponent_part r2)
           in Some (if neg then - v else v))"

definition getMaxRetries :: "config \<Rightarrow> int option" where
  "getMaxRetries cfg = parseInt10 (or_str (getConfig cfg ''max_retries'') ''3'')"

definition getBackoffBase :: "config \<Rightarrow> rat option" where
  "getBackoffBase cfg = parseFloat (or_str (getConfig cfg ''backoff_base'') ''2'')"

text \<open>The two rows \<^verbatim>\<open>Storage.init\<close> inserts into an empty \<^verbatim>\<open>config\<close> table.\<close>

definition default_config :: config where
  "default_config = [''max_retries'' \<mapsto> ''3'', ''backoff_base'' \<mapsto> ''2'']"

section \<open>The queue (queue.js)\<close>

subsection \<open>enqueue\<close>

text \<open>
  The parsed job descriptor: each of the three keys may be absent. \<open>t_created\<close>,
  \<open>t_updated\<close> and \<open>t_insert\<close> are the three clock readings of a call, in order.
\<close>

record job_data =
  jd_id :: "string option"
  jd_command :: "string option"
  jd_max_retries :: "int option"

definition enqueue ::
  "job_data \<Rightarrow> config \<Rightarrow> timestamp \<Rightarrow> timestamp \<Rightarrow> timestamp \<Rightarrow> jobs
     \<Rightarrow> error + (jobs \<times> job option)" where
  "enqueue jobData cfg t_created t_updated t_insert s =
     (case jd_id jobData of
        None \<Rightarrow> Inl MissingId
      | Some i \<Rightarrow>
          if i = [] then Inl MissingId
          else (case jd_command jobData of
             None \<Rightarrow> Inl MissingCommand
           | Some c \<Rightarrow>
               if c = [] then Inl MissingCommand
               else if getJob s i \<noteq> None then Inl DuplicateId
               else createJob
                      \<lparr> in_id = i, in_command = c, in_state = Some Pending,
                        in_attempts = Some 0,
                        in_max_retries = or_num (jd_max_retries jobData) (getMaxRetries cfg),
                        in_created_at = Some t_created, in_updated_at = Some t_updated \<rparr>
                      t_insert s))"

subsection \<open>executeJob\<close>

text \<open>
  What the awaited \<^verbatim>\<open>execAsync\<close> did: it resolved with the two output streams, or it
  rejected with an error whose \<^verbatim>\<open>message\<close> may be missing or empty.
\<close>

datatype exec_outcome = ExecOk string string | ExecError "string option"

text \<open>
  The value \<^verbatim>\<open>executeJob\<close> resolves to: \<^verbatim>\<open>null\<close> when the lock was not obtained, the
  success object, or the failure object with \<^verbatim>\<open>error\<close>, \<^verbatim>\<open>attempts\<close> and
  \<^verbatim>\<open>nextRetryAt\<close>.
\<close>

datatype exec_result =
    NotLocked
  | Succeeded string string
  | FailedRun string nat "timestamp option"

text \<open>
  \<^verbatim>\<open>new Date(v)\<close> clips its argument: a value that is not finite or lies beyond
  8.64e15 ms makes the date invalid, any other is truncated towards zero.
  \<^verbatim>\<open>toISOString\<close> throws a \<^verbatim>\<open>RangeError\<close> on an invalid date.
\<close>

definition js_trunc :: "rat \<Rightarrow> int" where
  "js_trunc q = (if q < 0 then \<lceil>q\<rceil> else \<lfloor>q\<rfloor>)"

definition TimeClip :: "rat option \<Rightarrow> int option" where
  "TimeClip v =
     (case v of
        None \<Rightarrow> None
      | Some q \<Rightarrow> if \<bar>q\<bar> > 8640000000000000 then None else Some (js_trunc q))"

definition toISOString :: "int option \<Rightarrow> error + timestamp" where
  "toISOString d = (case d of None \<Rightarrow> Inl RangeError | Some t \<Rightarrow> Inr t)"

text \<open>
  \<^verbatim>\<open>Math.pow(backoffBase, attempts)\<close>, and below it the product with 1000 and the sum
  with \<^verbatim>\<open>Date.now()\<close>. JavaScript computes all three on IEEE doubles, and its
  \<^verbatim>\<open>Math.pow\<close> is only required to approximate the power. Here a double is the rational
  it stands for and the three operations are exact, so the millisecond that the model
  stores can differ from the program's by the rounding of the doubles. The two agree
  where every value on the way is an integer below 2^53 (a whole base with a small
  exponent), and where the sum is far beyond the range of \<^verbatim>\<open>Date\<close>; the statements
  below that quote a stored retry time are of these two kinds.
\<close>

definition Math_pow :: "rat option \<Rightarrow> nat \<Rightarrow> rat option" where
  "Math_pow b k = (if k = 0 then Some 1 else map_option (\<lambda>x. x ^ k) b)"

text \<open>
  The three lines that compute \<^verbatim>\<open>nextRetryAt\<close> from the backoff base, \<^verbatim>\<open>Date.now()\<close>
  and the incremented attempt count.
\<close>

definition retry_time :: "rat option \<Rightarrow> timestamp \<Rightarrow> nat \<Rightarrow> error + timestamp" where
  "retry_time backoffBase t_now attempts' =
     (let delaySeconds = Math_pow backoffBase attempts';
          nextRetry = TimeClip (map_option (\<lambda>d. of_int t_now + d * 1000) delaySeconds)
      in toISOString nextRetry)"

definition completed_updates :: updates where
  "completed_updates =
     no_updates \<lparr> set_state := Some Completed, set_worker_id := Some None,
                  set_error_message := Some None \<rparr>"

definition dead_updates :: "nat \<Rightarrow> string \<Rightarrow> updates" where
  "dead_updates n msg =
     no_updates \<lparr> set_state := Some Dead, set_attempts := Some n,
                  set_worker_id := Some None, set_error_message := Some (Some msg) \<rparr>"

definition failed_updates :: "nat \<Rightarrow> timestamp \<Rightarrow> string \<Rightarrow> updates" where
  "failed_updates n t msg =
     no_updates \<lparr> set_state := Some Failed, set_attempts := Some n,
                  set_next_retry_at := Some (Some t),
                  set_worker_id := Some None, set_error_message := Some (Some msg) \<rparr>"

text \<open>
  The part of \<^verbatim>\<open>executeJob\<close> after the lock is held and the command has finished.
  \<open>job\<close> is the object the caller passed in, not the row as it is now; \<open>t_now\<close> is
  \<^verbatim>\<open>Date.now()\<close> and \<open>t_upd\<close> the clock reading inside \<^verbatim>\<open>updateJob\<close>. A thrown
  \<^verbatim>\<open>RangeError\<close> leaves the table as it was.
\<close>

definition finishJob ::
  "job \<Rightarrow> exec_outcome \<Rightarrow> config \<Rightarrow> timestamp \<Rightarrow> timestamp \<Rightarrow> jobs
     \<Rightarrow> jobs \<times> (error + exec_result)" where
  "finishJob job outcome cfg t_now t_upd s =
     (case outcome of
        ExecOk out err \<Rightarrow>
          (fst (updateJob (job_id job) completed_updates t_upd s), Inr (Succeeded out err))
      | ExecError msg \<Rightarrow>
          let attempts' = attempts job + 1;
              maxRetries = max_retries job;
              backoffBase = getBackoffBase cfg;
              errorMessage = or_str msg ''Command execution failed''
          in if int attempts' \<ge> maxRetries then
               (fst (updateJob (job_id job) (dead_updates attempts' errorMessage) t_upd s),
                Inr (FailedRun errorMessage attempts' None))
             else
               (case retry_time backoffBase t_now attempts' of
                  Inl e \<Rightarrow> (s, Inl e)
                | Inr nextRetryAt \<Rightarrow>
                    (fst (updateJob (job_id job)
                            (failed_updates attempts' nextRetryAt errorMessage) t_upd s),
                     Inr (FailedRun errorMessage attempts' (Some nextRetryAt)))))"

text \<open>
  \<^verbatim>\<open>executeJob\<close> run without interruption: the lock at \<open>t_lock\<close>, then the command,
  then the update.
\<close>

definition executeJob ::
  "job \<Rightarrow> string \<Rightarrow> exec_outcome \<Rightarrow> config \<Rightarrow> timestamp \<Rightarrow> timestamp \<Rightarrow> timestamp \<Rightarrow> jobs
     \<Rightarrow> jobs \<times> (error + exec_result)" where
  "executeJob job workerId outcome cfg t_lock t_now t_upd s =
     (let (s1, locked) = lockJob (job_id job) workerId t_lock s
      in if \<not> locked then (s1, Inr NotLocked)
         else finishJob job outcome cfg t_now t_upd s1)"

subsection \<open>getNextJob\<close>

definition requeue_updates :: updates where
  "requeue_updates = no_updates \<lparr> set_state := Some Pending, set_next_retry_at := Some None \<rparr>"

definition getNextJob :: "timestamp \<Rightarrow> timestamp \<Rightarrow> jobs \<Rightarrow> jobs \<times> job option" where
  "getNextJob t_now t_upd s =
     (case getNextPendingJob s of
        Some job \<Rightarrow> (s, Some job)
      | None \<Rightarrow>
          (case getRetryableJobs t_now s of
             Some job \<Rightarrow>
               (let s' = fst (updateJob (job_id job) requeue_updates t_upd s)
                in (s', getJob s' (job_id job)))
           | None \<Rightarrow> (s, None)))"

section \<open>The worker loop (worker.js)\<close>

text \<open>
  One turn of the loop in \<^verbatim>\<open>Worker.process\<close>: ask for the next job and, if there is
  one, execute it. \<open>run\<close> is the command execution, which the queue only sees through
  its outcome. \<open>t_start\<close> is the clock while the job is fetched and locked, \<open>t_end\<close>
  the clock once the command has finished.
\<close>

definition process_step ::
  "string \<Rightarrow> (string \<Rightarrow> exec_outcome) \<Rightarrow> config \<Rightarrow> timestamp \<Rightarrow> timestamp \<Rightarrow> jobs
     \<Rightarrow> jobs \<times> (error + exec_result) option" where
  "process_step workerId run cfg t_start t_end s =
     (let (s1, next) = getNextJob t_start t_start s
      in case next of
           None \<Rightarrow> (s1, None)
         | Some job \<Rightarrow>
             (let (s2, res) = executeJob job workerId (run (command job)) cfg
                                t_start t_end t_end s1
              in (s2, Some res)))"

text \<open>
  Several claim attempts on one job id, one after the other, each by a worker at a
  time; the result lists which of them obtained the lock.
\<close>

fun claim_attempts :: "string \<Rightarrow> (string \<times> timestamp) list \<Rightarrow> jobs \<Rightarrow> jobs \<times> bool list" where
  "claim_attempts i [] s = (s, [])"
| "claim_attempts i ((w, t) # ws) s =
     (let (s1, ok) = lockJob i w t s;
          (s2, oks) = claim_attempts i ws s1
      in (s2, ok # oks))"

section \<open>Reachable tables\<close>

text \<open>
  The tables the program can produce from the empty one. The workers and the command
  line are separate processes on one database file and the program opens no
  transaction, so the steps are the single SQL statements. \<^verbatim>\<open>lockJob\<close> and each
  \<^verbatim>\<open>updateJob\<close> is one \<^verbatim>\<open>UPDATE\<close>. \<^verbatim>\<open>executeJob\<close> awaits the command between its
  lock and its update; \<^verbatim>\<open>getNextJob\<close> and \<^verbatim>\<open>retryFromDLQ\<close> first select a row and
  then update by its id, whatever has happened to the row in between. The second
  component is the set of job objects that callers hold from earlier reads: the late
  updates work on such an object, which may be out of date. \<open>r_requeue\<close> is the
  \<^verbatim>\<open>UPDATE\<close> of \<^verbatim>\<open>getNextJob\<close> on an object that \<^verbatim>\<open>getRetryableJobs\<close> returned (its
  state was \<^verbatim>\<open>failed\<close>), \<open>r_retry\<close> the \<^verbatim>\<open>UPDATE\<close> of \<^verbatim>\<open>retryFromDLQ\<close> on an object
  that \<^verbatim>\<open>getJob\<close> returned with state \<^verbatim>\<open>dead\<close>. \<^verbatim>\<open>enqueue\<close> can stay one step: its
  \<^verbatim>\<open>INSERT\<close> checks the primary key itself. \<open>r_getNextJob\<close> and \<open>r_retryFromDLQ\<close>
  are the two functions run without another statement in between.
\<close>

inductive reachable :: "jobs \<Rightarrow> job set \<Rightarrow> bool" where
  r_init: "reachable [] {}"
| r_enqueue:
    "reachable s H \<Longrightarrow> enqueue d cfg t1 t2 t3 s = Inr (s', j) \<Longrightarrow> reachable s' H"
| r_read:
    "reachable s H \<Longrightarrow> getJob s i = Some r \<Longrightarrow> reachable s (insert r H)"
| r_getNextJob:
    "reachable s H \<Longrightarrow> getNextJob t1 t2 s = (s', Some r) \<Longrightarrow> reachable s' (insert r H)"
| r_requeue:
    "reachable s H \<Longrightarrow> job \<in> H \<Longrightarrow> state job = Failed \<Longrightarrow>
     reachable (fst (updateJob (job_id job) requeue_updates t s)) H"
| r_lockJob:
    "reachable s H \<Longrightarrow> reachable (fst (lockJob i w t s)) H"
| r_finishJob:
    "reachable s H \<Longrightarrow> job \<in> H \<Longrightarrow> reachable (fst (finishJob job outcome cfg t1 t2 s)) H"
| r_moveToDLQ:
    "reachable s H \<Longrightarrow> reachable (fst (moveToDLQ i t s)) H"
| r_retryFromDLQ:
    "reachable s H \<Longrightarrow> reachable (fst (retryFromDLQ i t s)) H"
| r_retry:
    "reachable s H \<Longrightarrow> job \<in> H \<Longrightarrow> state job = Dead \<Longrightarrow>
     reachable (fst (updateJob (job_id job) retry_updates t s)) H"

section \<open>Notions used in the statements\<close>

text \<open>
  The value that reaches the \<^verbatim>\<open>max_retries\<close> column of a new job: the \<^verbatim>\<open>||\<close> of
  \<^verbatim>\<open>enqueue\<close> followed by the \<^verbatim>\<open>||\<close> of \<^verbatim>\<open>createJob\<close>.
\<close>

definition persisted_max_retries :: "job_data \<Rightarrow> config \<Rightarrow> int" where
  "persisted_max_retries d cfg =
     (case or_num (or_num (jd_max_retries d) (getMaxRetries cfg)) (Some 3) of
        None \<Rightarrow> 3 | Some n \<Rightarrow> n)"

text \<open>
  The invariants of the reachable tables. \<open>ids_unique\<close> is the primary key.
  \<open>held_known\<close> says that every job object a caller holds was read from a row that is
  still there with the same \<open>max_retries\<close>.
\<close>

definition ids_unique :: "jobs \<Rightarrow> bool" where
  "ids_unique s = distinct (map job_id s)"

definition failed_is_scheduled :: "job \<Rightarrow> bool" where
  "failed_is_scheduled r =
     (state r \<noteq> Failed \<or> (next_retry_at r \<noteq> None \<and> int (attempts r) < max_retries r))"

definition rows_ok :: "jobs \<Rightarrow> bool" where
  "rows_ok s = (ids_unique s \<and> (\<forall>r\<in>set s. failed_is_scheduled r))"

definition held_known :: "jobs \<Rightarrow> job set \<Rightarrow> bool" where
  "held_known s H =
     (\<forall>j\<in>H. \<exists>r\<in>set s. job_id r = job_id j \<and> max_retries r = max_retries j)"




section \<open>Example data\<close>

text \<open>Rows and descriptors on which the statements below are evaluated.\<close>

definition job0 :: job where
  "job0 = \<lparr> job_id = ''j1'', command = ''echo ok'', state = Pending, attempts = 0,
            max_retries = 3, created_at = 10, updated_at = 10, next_retry_at = None,
            worker_id = None, error_message = None \<rparr>"


definition dead0 :: job where
  "dead0 = \<lparr> job_id = ''j1'', command = ''exit 1'', state = Dead, attempts = 3,
            max_retries = 3, created_at = 10, updated_at = 90, next_retry_at = Some 80,
            worker_id = None, error_message = Some ''Command failed: exit 1'' \<rparr>"

definition j2_data :: job_data where
  "j2_data = \<lparr> jd_id = Some ''j2'', jd_command = Some ''echo ok'', jd_max_retries = None \<rparr>"

definition j2_row :: job where
  "j2_row = \<lparr> job_id = ''j2'', command = ''echo ok'', state = Pending, attempts = 0,
              max_retries = 3, created_at = 5, updated_at = 6, next_retry_at = None,
              worker_id = None, error_message = None \<rparr>"

definition zero_data :: job_data where
  "zero_data = \<lparr> jd_id = Some ''j0'', jd_command = Some ''true'', jd_max_retries = Some 0 \<rparr>"

definition zero_row :: "int \<Rightarrow> job" where
  "zero_row n = \<lparr> job_id = ''j0'', command = ''true'', state = Pending, attempts = 0,
                  max_retries = n, created_at = 5, updated_at = 6, next_retry_at = None,
                  worker_id = None, error_message = None \<rparr>"

text \<open>
  The scenario of one job that always fails: its descriptor, its row in each state, and
  the outcome of its command. The message of the error that \<^verbatim>\<open>exec\<close> rejects with is
  \<^verbatim>\<open>Command failed: \<close> and the command, a line feed, and the (here empty) error output.
\<close>

definition j1_data :: job_data where
  "j1_data = \<lparr> jd_id = Some ''j1'', jd_command = Some ''exit 1'', jd_max_retries = Some 3 \<rparr>"

definition j1_row :: "job_state \<Rightarrow> nat \<Rightarrow> timestamp option \<Rightarrow> timestamp \<Rightarrow> string option \<Rightarrow> job" where
  "j1_row st n nx upd msg =
     \<lparr> job_id = ''j1'', command = ''exit 1'', state = st, attempts = n, max_retries = 3,
       created_at = 0, updated_at = upd, next_retry_at = nx, worker_id = None,
       error_message = msg \<rparr>"

definition j1_locked :: job where
  "j1_locked = (j1_row Processing 0 None 1 None) \<lparr> worker_id := Some ''w1'' \<rparr>"

definition exit1_message :: string where
  "exit1_message = ''Command failed: exit 1'' @ [CHR 0x0A]"

definition always_fail :: "string \<Rightarrow> exec_outcome" where
  "always_fail c = ExecError (Some exit1_message)"


definition cfg_1e13 :: config where
  "cfg_1e13 = default_config(''backoff_base'' \<mapsto> ''10000000000000'')"

section \<open>Properties\<close>

subsection \<open>Looking rows up\<close>

lemma getJob_Some_D: "getJob s i = Some r \<Longrightarrow> r \<in> set s \<and> job_id r = i"
  unfolding getJob_def by (induction s) (auto split: if_splits)

lemma getJob_None_iff: "getJob s i = None \<longleftrightarrow> i \<notin> job_id ` set s"
  unfolding getJob_def by (induction s) auto

lemma getJob_distinct: "distinct (map job_id s) \<Longrightarrow> r \<in> set s \<Longrightarrow> getJob s (job_id r) = Some r"
  unfolding getJob_def by (induction s) auto

lemma getJob_map: "(\<And>r. job_id (g r) = job_id r) \<Longrightarrow> getJob (map g s) i = map_option g (getJob s i)"
  unfolding getJob_def by (induction s) auto

lemma fst_lockJob: "fst (lockJob i w t s) = map (lock_row i w t) s"
  by (simp add: lockJob_def Let_def)

lemma snd_lockJob: "snd (lockJob i w t s) \<longleftrightarrow> (\<exists>r\<in>set s. lock_matches i r)"
  by (auto simp add: lockJob_def Let_def filter_empty_conv)

lemma job_id_lock_row: "job_id (lock_row i w t r) = job_id r"
  by (simp add: lock_row_def)

lemma snd_lockJob_getJob:
  assumes "distinct (map job_id s)"
  shows "snd (lockJob i w t s) \<longleftrightarrow> (\<exists>r. getJob s i = Some r \<and> state r = Pending)"
proof
  assume "snd (lockJob i w t s)"
  then obtain r where "r \<in> set s" "lock_matches i r" by (auto simp: snd_lockJob)
  then show "\<exists>r. getJob s i = Some r \<and> state r = Pending"
    using getJob_distinct[OF assms, of r] by (auto simp: lock_matches_def)
next
  assume "\<exists>r. getJob s i = Some r \<and> state r = Pending"
  then show "snd (lockJob i w t s)"
    by (auto simp: snd_lockJob lock_matches_def dest: getJob_Some_D)
qed

lemma lockJob_fail_same: "\<not> snd (lockJob i w t s) \<Longrightarrow> fst (lockJob i w t s) = s"
  by (auto simp: snd_lockJob fst_lockJob lock_row_def intro: map_idI)

lemma getJob_lockJob: "getJob (fst (lockJob i w t s)) k = map_option (lock_row i w t) (getJob s k)"
  by (simp add: fst_lockJob getJob_map job_id_lock_row)

lemma claim_attempts_not_pending:
  "\<not> (\<exists>r\<in>set s. lock_matches i r) \<Longrightarrow> claim_attempts i ws s = (s, replicate (length ws) False)"
proof (induction ws)
  case Nil then show ?case by simp
next
  case (Cons a ws)
  obtain w t where a: "a = (w, t)" by (cases a)
  have "\<not> snd (lockJob i w t s)" using Cons.prems by (simp add: snd_lockJob)
  then have "lockJob i w t s = (s, False)"
    using lockJob_fail_same[of i w t s] by (cases "lockJob i w t s") auto
  then show ?case using Cons a by simp
qed

lemma lock_row_not_matches: "\<not> lock_matches i (lock_row i w t r)"
  by (simp add: lock_row_def lock_matches_def)

lemma claim_attempts_first:
  assumes "\<exists>r\<in>set s. lock_matches i r"
  shows "claim_attempts i ((w, t) # ws) s = (fst (lockJob i w t s), True # replicate (length ws) False)"
proof -
  have ok: "snd (lockJob i w t s)" using assms by (simp add: snd_lockJob)
  have no: "\<not> (\<exists>r\<in>set (fst (lockJob i w t s)). lock_matches i r)"
    by (auto simp: fst_lockJob lock_row_not_matches)
  have eq: "lockJob i w t s = (fst (lockJob i w t s), True)" using ok by (cases "lockJob i w t s") auto
  have "claim_attempts i ((w, t) # ws) s =
          (let (s1, ok) = (fst (lockJob i w t s), True); (s2, oks) = claim_attempts i ws s1 in (s2, ok # oks))"
    using eq by (metis claim_attempts.simps(2))
  then show ?thesis
    by (simp add: claim_attempts_not_pending[OF no])
qed

text \<open>
  C1. \<^verbatim>\<open>lockJob\<close> reports success exactly when the job with that id is pending. On
  success the row becomes \<open>Processing\<close> with \<open>worker_id\<close> the claiming worker (and a
  fresh \<open>updated_at\<close>), rows with another id stay as they are; on failure the whole
  table is unchanged. So of any sequence of claim attempts on a pending job exactly the
  first succeeds.
\<close>

theorem lockJob_succeeds_iff_pending:
  assumes "distinct (map job_id s)"
  shows "(snd (lockJob i w t s) \<longleftrightarrow> (\<exists>r. getJob s i = Some r \<and> state r = Pending))
       \<and> (\<forall>r. getJob s i = Some r \<and> state r = Pending \<longrightarrow>
             getJob (fst (lockJob i w t s)) i
               = Some (r \<lparr> state := Processing, worker_id := Some w, updated_at := t \<rparr>))
       \<and> (\<forall>k. k \<noteq> i \<longrightarrow> getJob (fst (lockJob i w t s)) k = getJob s k)
       \<and> (\<not> snd (lockJob i w t s) \<longrightarrow> fst (lockJob i w t s) = s)
       \<and> (\<forall>r ws. getJob s i = Some r \<and> state r = Pending \<longrightarrow>
             claim_attempts i ((w, t) # ws) s
               = (fst (lockJob i w t s), True # replicate (length ws) False))"
proof (intro conjI allI impI)
  show "snd (lockJob i w t s) \<longleftrightarrow> (\<exists>r. getJob s i = Some r \<and> state r = Pending)"
    by (rule snd_lockJob_getJob[OF assms])
next
  fix r assume "getJob s i = Some r \<and> state r = Pending"
  then show "getJob (fst (lockJob i w t s)) i
               = Some (r \<lparr> state := Processing, worker_id := Some w, updated_at := t \<rparr>)"
    by (auto simp: getJob_lockJob lock_row_def lock_matches_def dest: getJob_Some_D)
next
  fix k assume "k \<noteq> i"
  show "getJob (fst (lockJob i w t s)) k = getJob s k"
  proof (cases "getJob s k")
    case None then show ?thesis by (simp add: getJob_lockJob)
  next
    case (Some r)
    then have "job_id r = k" by (auto dest: getJob_Some_D)
    with \<open>k \<noteq> i\<close> Some show ?thesis by (simp add: getJob_lockJob lock_row_def lock_matches_def)
  qed
next
  assume "\<not> snd (lockJob i w t s)"
  then show "fst (lockJob i w t s) = s" by (rule lockJob_fail_same)
next
  fix r ws assume "getJob s i = Some r \<and> state r = Pending"
  then have "\<exists>r\<in>set s. lock_matches i r"
    by (auto simp: lock_matches_def dest: getJob_Some_D)
  then show "claim_attempts i ((w, t) # ws) s
               = (fst (lockJob i w t s), True # replicate (length ws) False)"
    by (rule claim_attempts_first)
qed

theorem lockJob_succeeds_iff_pending_witness:
  "distinct (map job_id [job0])
   \<and> snd (lockJob ''j1'' ''w1'' 20 [job0])
   \<and> getJob (fst (lockJob ''j1'' ''w1'' 20 [job0])) ''j1''
       = Some (job0 \<lparr> state := Processing, worker_id := Some ''w1'', updated_at := 20 \<rparr>)
   \<and> claim_attempts ''j1'' [(''w1'', 20), (''w2'', 21), (''w3'', 22)] [job0]
       = ([job0 \<lparr> state := Processing, worker_id := Some ''w1'', updated_at := 20 \<rparr>],
          [True, False, False])"
proof -
  have d: "distinct (map job_id [job0])" by simp
  have g: "getJob [job0] ''j1'' = Some job0 \<and> state job0 = Pending"
    by (simp add: getJob_def job0_def)
  have f: "fst (lockJob ''j1'' ''w1'' 20 [job0])
             = [job0 \<lparr> state := Processing, worker_id := Some ''w1'', updated_at := 20 \<rparr>]"
    by (simp add: lockJob_def lock_row_def lock_matches_def job0_def)
  from lockJob_succeeds_iff_pending[OF d, of "''j1''" "''w1''" 20] g f d
  show ?thesis
    by (auto simp del: claim_attempts.simps)
qed

subsection \<open>Row updates\<close>

lemma fst_updateJob: "fst (updateJob i u t s) = map (update_row i u t) s"
  by (simp add: updateJob_def Let_def)

lemma job_id_apply_updates: "job_id (apply_updates u t r) = job_id r"
  by (simp add: apply_updates_def)

lemma job_id_update_row: "job_id (update_row i u t r) = job_id r"
  by (simp add: update_row_def job_id_apply_updates)

lemma getJob_updateJob:
  "getJob (fst (updateJob i u t s)) k = map_option (update_row i u t) (getJob s k)"
  by (simp add: fst_updateJob getJob_map job_id_update_row)

lemma snd_updateJob: "snd (updateJob i u t s) = getJob (fst (updateJob i u t s)) i"
  by (simp add: updateJob_def Let_def)

lemma getJob_updateJob_same:
  "getJob s i = Some r \<Longrightarrow> getJob (fst (updateJob i u t s)) i = Some (apply_updates u t r)"
  by (auto simp: getJob_updateJob update_row_def dest: getJob_Some_D)

lemma getJob_updateJob_other:
  "k \<noteq> i \<Longrightarrow> getJob (fst (updateJob i u t s)) k = getJob s k"
  by (cases "getJob s k") (auto simp: getJob_updateJob update_row_def dest: getJob_Some_D)

lemma getJob_lockJob_same:
  "getJob s i = Some r \<Longrightarrow> state r = Pending \<Longrightarrow>
   getJob (fst (lockJob i w t s)) i
     = Some (r \<lparr> state := Processing, worker_id := Some w, updated_at := t \<rparr>)"
  by (auto simp: getJob_lockJob lock_row_def lock_matches_def dest: getJob_Some_D)

lemma getJob_lockJob_other:
  "k \<noteq> i \<Longrightarrow> getJob (fst (lockJob i w t s)) k = getJob s k"
  by (cases "getJob s k") (auto simp: getJob_lockJob lock_row_def lock_matches_def dest: getJob_Some_D)

lemma snd_lockJob_pending:
  "getJob s i = Some r \<Longrightarrow> state r = Pending \<Longrightarrow> snd (lockJob i w t s)"
  by (auto simp: snd_lockJob lock_matches_def dest: getJob_Some_D)

lemma executeJob_locked:
  "snd (lockJob (job_id job) w t1 s) \<Longrightarrow>
   executeJob job w outcome cfg t1 t2 t3 s
     = finishJob job outcome cfg t2 t3 (fst (lockJob (job_id job) w t1 s))"
  by (simp add: executeJob_def split_beta)

lemma executeJob_not_locked:
  "\<not> snd (lockJob (job_id job) w t1 s) \<Longrightarrow>
   executeJob job w outcome cfg t1 t2 t3 s = (s, Inr NotLocked)"
  by (simp add: executeJob_def split_beta lockJob_fail_same)

subsection \<open>The dead-letter queue\<close>

text \<open>
  C6. \<^verbatim>\<open>retryFromDLQ\<close> on a job whose state is \<open>Dead\<close> returns and stores the row
  with \<open>state = Pending\<close>, \<open>attempts = 0\<close>, \<open>next_retry_at\<close> and \<open>error_message\<close>
  null (and a fresh \<open>updated_at\<close>), leaving every other id alone. On an id that is
  absent or not \<open>Dead\<close> it returns null and the table is the one it was given.
\<close>
theorem retryFromDLQ_resets_dead_only:
  "(\<forall>r. getJob s i = Some r \<and> state r = Dead \<longrightarrow>
        snd (retryFromDLQ i t s)
          = Some (r \<lparr> state := Pending, attempts := 0, next_retry_at := None,
                       error_message := None, updated_at := t \<rparr>)
      \<and> getJob (fst (retryFromDLQ i t s)) i = snd (retryFromDLQ i t s)
      \<and> (\<forall>k. k \<noteq> i \<longrightarrow> getJob (fst (retryFromDLQ i t s)) k = getJob s k))
   \<and> ((getJob s i = None \<or> (\<exists>r. getJob s i = Some r \<and> state r \<noteq> Dead)) \<longrightarrow>
        retryFromDLQ i t s = (s, None))"
proof (intro conjI allI impI)
  fix r assume a: "getJob s i = Some r \<and> state r = Dead"
  let ?u = retry_updates
  have eq: "retryFromDLQ i t s = updateJob i ?u t s"
    using a by (simp add: retryFromDLQ_def)
  have g: "getJob (fst (updateJob i ?u t s)) i = Some (apply_updates ?u t r)"
    using a by (simp add: getJob_updateJob_same)
  have ap: "apply_updates ?u t r
              = r \<lparr> state := Pending, attempts := 0, next_retry_at := None,
                    error_message := None, updated_at := t \<rparr>"
    by (simp add: apply_updates_def retry_updates_def no_updates_def)
  show "snd (retryFromDLQ i t s)
          = Some (r \<lparr> state := Pending, attempts := 0, next_retry_at := None,
                       error_message := None, updated_at := t \<rparr>)"
    using eq g ap by (simp add: snd_updateJob)
  show "getJob (fst (retryFromDLQ i t s)) i = snd (retryFromDLQ i t s)"
    using eq by (simp add: snd_updateJob)
  show "\<And>k. k \<noteq> i \<Longrightarrow> getJob (fst (retryFromDLQ i t s)) k = getJob s k"
    using eq by (simp add: getJob_updateJob_other)
next
  assume "getJob s i = None \<or> (\<exists>r. getJob s i = Some r \<and> state r \<noteq> Dead)"
  then show "retryFromDLQ i t s = (s, None)"
    by (auto simp: retryFromDLQ_def)
qed

theorem retryFromDLQ_resets_dead_only_witness:
  "retryFromDLQ ''j1'' 100 [dead0]
     = ([dead0 \<lparr> state := Pending, attempts := 0, next_retry_at := None,
                 error_message := None, updated_at := 100 \<rparr>],
        Some (dead0 \<lparr> state := Pending, attempts := 0, next_retry_at := None,
                 error_message := None, updated_at := 100 \<rparr>))
   \<and> retryFromDLQ ''j2'' 100 [dead0] = ([dead0], None)
   \<and> retryFromDLQ ''j1'' 100 [job0] = ([job0], None)"
proof -
  have g1: "getJob [dead0] ''j1'' = Some dead0 \<and> state dead0 = Dead"
    by (simp add: getJob_def dead0_def)
  have g2: "getJob [dead0] ''j2'' = None"
    by (simp add: getJob_def dead0_def)
  have g3: "getJob [job0] ''j1'' = Some job0 \<and> state job0 \<noteq> Dead"
    by (simp add: getJob_def job0_def)
  have f: "fst (retryFromDLQ ''j1'' 100 [dead0])
             = [dead0 \<lparr> state := Pending, attempts := 0, next_retry_at := None,
                 error_message := None, updated_at := 100 \<rparr>]"
    by (simp add: retryFromDLQ_def getJob_def updateJob_def update_row_def apply_updates_def
          retry_updates_def no_updates_def dead0_def)
  from retryFromDLQ_resets_dead_only[of "[dead0]" "''j1''" 100] g1 f
  have a: "retryFromDLQ ''j1'' 100 [dead0]
     = ([dead0 \<lparr> state := Pending, attempts := 0, next_retry_at := None,
                 error_message := None, updated_at := 100 \<rparr>],
        Some (dead0 \<lparr> state := Pending, attempts := 0, next_retry_at := None,
                 error_message := None, updated_at := 100 \<rparr>))"
    by (metis prod.collapse)
  from retryFromDLQ_resets_dead_only[of "[dead0]" "''j2''" 100] g2
  have b: "retryFromDLQ ''j2'' 100 [dead0] = ([dead0], None)" by blast
  from retryFromDLQ_resets_dead_only[of "[job0]" "''j1''" 100] g3
  have c: "retryFromDLQ ''j1'' 100 [job0] = ([job0], None)" by blast
  from a b c show ?thesis by blast
qed

subsection \<open>executeJob\<close>

lemma apply_completed:
  "apply_updates completed_updates t r
     = r \<lparr> state := Completed, worker_id := None, error_message := None, updated_at := t \<rparr>"
  by (simp add: apply_updates_def completed_updates_def no_updates_def)


lemma apply_failed:
  "apply_updates (failed_updates n nx msg) t r
     = r \<lparr> state := Failed, attempts := n, next_retry_at := Some nx, worker_id := None,
           error_message := Some msg, updated_at := t \<rparr>"
  by (simp add: apply_updates_def failed_updates_def no_updates_def)

lemma finishJob_ok:
  "finishJob job (ExecOk out err) cfg t2 t3 s
     = (fst (updateJob (job_id job) completed_updates t3 s), Inr (Succeeded out err))"
  by (simp add: finishJob_def)

lemma finishJob_dead:
  "max_retries job \<le> int (attempts job) + 1 \<Longrightarrow>
   finishJob job (ExecError m) cfg t2 t3 s
     = (fst (updateJob (job_id job)
               (dead_updates (attempts job + 1) (or_str m ''Command execution failed'')) t3 s),
        Inr (FailedRun (or_str m ''Command execution failed'') (attempts job + 1) None))"
  by (simp add: finishJob_def Let_def)

lemma finishJob_retry:
  "int (attempts job) + 1 < max_retries job \<Longrightarrow>
   retry_time (getBackoffBase cfg) t2 (attempts job + 1) = Inr nx \<Longrightarrow>
   finishJob job (ExecError m) cfg t2 t3 s
     = (fst (updateJob (job_id job)
               (failed_updates (attempts job + 1) nx (or_str m ''Command execution failed'')) t3 s),
        Inr (FailedRun (or_str m ''Command execution failed'') (attempts job + 1) (Some nx)))"
  by (simp add: finishJob_def Let_def)

lemma finishJob_throw:
  "int (attempts job) + 1 < max_retries job \<Longrightarrow>
   retry_time (getBackoffBase cfg) t2 (attempts job + 1) = Inl e \<Longrightarrow>
   finishJob job (ExecError m) cfg t2 t3 s = (s, Inl e)"
  by (simp add: finishJob_def Let_def)


lemmas parse_defs =
  getBackoffBase_def getMaxRetries_def getConfig_def or_str_def parseFloat_def parseInt10_def
  split_sign_def is_ws_def is_digit_def digits_val_def exponent_part_def scale10_def
  default_config_def

lemmas store_defs =
  getJob_def lockJob_def lock_row_def lock_matches_def updateJob_def update_row_def
  apply_updates_def no_updates_def

lemmas exec_defs =
  executeJob_def finishJob_def retry_time_def Math_pow_def TimeClip_def toISOString_def
  js_trunc_def completed_updates_def dead_updates_def failed_updates_def


subsection \<open>enqueue\<close>

lemma getJob_append:
  "getJob (s @ [row]) i = (case getJob s i of None \<Rightarrow> (if job_id row = i then Some row else None)
                           | Some r \<Rightarrow> Some r)"
  unfolding getJob_def by (induction s) auto

lemma enqueue_Inr:
  assumes "enqueue d cfg ta tb tc s = Inr (s1, jo)"
  shows "\<exists>i c. jd_id d = Some i \<and> i \<noteq> [] \<and> jd_command d = Some c \<and> c \<noteq> [] \<and> getJob s i = None
           \<and> s1 = s @ [\<lparr> job_id = i, command = c, state = Pending, attempts = 0,
                          max_retries = persisted_max_retries d cfg,
                          created_at = ta, updated_at = tb, next_retry_at = None,
                          worker_id = None, error_message = None \<rparr>]
           \<and> jo = Some \<lparr> job_id = i, command = c, state = Pending, attempts = 0,
                          max_retries = persisted_max_retries d cfg,
                          created_at = ta, updated_at = tb, next_retry_at = None,
                          worker_id = None, error_message = None \<rparr>"
  using assms
  by (auto simp: enqueue_def createJob_def Let_def or_nat_def persisted_max_retries_def
        getJob_append split: option.splits if_splits)

lemma enqueue_max_retries_nonzero:
  assumes "enqueue d cfg ta tb tc s = Inr (s1, Some j)" and "jd_max_retries d = Some n" and "n \<noteq> 0"
  shows "max_retries j = n"
  using enqueue_Inr[OF assms(1)] assms(2,3)
  by (auto simp: persisted_max_retries_def or_num_def)

text \<open>
  C10. When the command of a pending job succeeds, \<^verbatim>\<open>executeJob\<close> returns the success
  object and the row differs from the one before the call in \<open>state\<close> (now
  \<open>Completed\<close>), \<open>worker_id\<close> and \<open>error_message\<close> (now null) and \<open>updated_at\<close>
  only; \<open>attempts\<close> and every other column keep their values, and rows with another id
  are untouched. A job that has just been enqueued and succeeds on its first execution
  is therefore \<open>Completed\<close> with \<open>attempts = 0\<close>.
\<close>

theorem executeJob_success_frame:
  "(getJob s (job_id job) = Some r \<and> state r = Pending \<longrightarrow>
      snd (executeJob job w (ExecOk out err) cfg t1 t2 t3 s) = Inr (Succeeded out err)
    \<and> getJob (fst (executeJob job w (ExecOk out err) cfg t1 t2 t3 s)) (job_id job)
        = Some (r \<lparr> state := Completed, worker_id := None, error_message := None,
                     updated_at := t3 \<rparr>)
    \<and> (\<forall>k. k \<noteq> job_id job \<longrightarrow>
          getJob (fst (executeJob job w (ExecOk out err) cfg t1 t2 t3 s)) k = getJob s k))
   \<and> (enqueue d cfg0 ta tb tc s0 = Inr (s, Some job) \<longrightarrow>
        (\<exists>r'. getJob (fst (executeJob job w (ExecOk out err) cfg t1 t2 t3 s)) (job_id job)
                = Some r' \<and> state r' = Completed \<and> attempts r' = 0))"
proof -
  let ?i = "job_id job"
  let ?E = "executeJob job w (ExecOk out err) cfg t1 t2 t3 s"
  let ?s1 = "fst (lockJob ?i w t1 s)"
  have main: "snd ?E = Inr (Succeeded out err)
    \<and> getJob (fst ?E) ?i
        = Some (r \<lparr> state := Completed, worker_id := None, error_message := None,
                     updated_at := t3 \<rparr>)
    \<and> (\<forall>k. k \<noteq> ?i \<longrightarrow> getJob (fst ?E) k = getJob s k)"
    if a: "getJob s ?i = Some r \<and> state r = Pending" for r
  proof -
    have locked: "snd (lockJob ?i w t1 s)" using a by (auto intro: snd_lockJob_pending)
    have ex: "?E = (fst (updateJob ?i completed_updates t3 ?s1), Inr (Succeeded out err))"
      by (simp add: executeJob_locked[OF locked] finishJob_ok)
    have g1: "getJob ?s1 ?i
                = Some (r \<lparr> state := Processing, worker_id := Some w, updated_at := t1 \<rparr>)"
      using a by (simp add: getJob_lockJob_same)
    have "getJob (fst ?E) ?i
            = Some (r \<lparr> state := Completed, worker_id := None, error_message := None,
                     updated_at := t3 \<rparr>)"
      unfolding ex using g1 by (simp add: getJob_updateJob_same apply_completed)
    moreover have "getJob (fst ?E) k = getJob s k" if "k \<noteq> ?i" for k
      unfolding ex using that by (simp add: getJob_updateJob_other getJob_lockJob_other)
    ultimately show ?thesis by (simp add: ex)
  qed
  have fresh: "\<exists>r'. getJob (fst ?E) ?i = Some r' \<and> state r' = Completed \<and> attempts r' = 0"
    if e: "enqueue d cfg0 ta tb tc s0 = Inr (s, Some job)"
  proof -
    from enqueue_Inr[OF e] have "getJob s ?i = Some job \<and> state job = Pending \<and> attempts job = 0"
      by (auto simp: getJob_append)
    with main[of job] show ?thesis by simp
  qed
  from main fresh show ?thesis by blast
qed

lemmas enqueue_defs = enqueue_def createJob_def or_num_def or_nat_def Let_def

theorem executeJob_success_frame_witness:
  "enqueue j2_data default_config 5 6 7 [] = Inr ([j2_row], Some j2_row)
   \<and> getJob [j2_row] (job_id j2_row) = Some j2_row \<and> state j2_row = Pending
   \<and> snd (executeJob j2_row ''w1'' (ExecOk ''ok'' []) default_config 8 9 10 [j2_row])
       = Inr (Succeeded ''ok'' [])
   \<and> getJob (fst (executeJob j2_row ''w1'' (ExecOk ''ok'' []) default_config 8 9 10 [j2_row]))
        (job_id j2_row)
       = Some (j2_row \<lparr> state := Completed, worker_id := None, error_message := None,
                        updated_at := 10 \<rparr>)
   \<and> (\<exists>r'. getJob (fst (executeJob j2_row ''w1'' (ExecOk ''ok'' []) default_config 8 9 10
                          [j2_row])) (job_id j2_row) = Some r'
          \<and> state r' = Completed \<and> attempts r' = 0)"
proof -
  have e: "enqueue j2_data default_config 5 6 7 [] = Inr ([j2_row], Some j2_row)"
    by (simp add: enqueue_defs j2_data_def j2_row_def getJob_def parse_defs)
  have h: "getJob [j2_row] (job_id j2_row) = Some j2_row \<and> state j2_row = Pending"
    by (simp add: getJob_def j2_row_def)
  from executeJob_success_frame[of "[j2_row]" j2_row j2_row "''w1''" "''ok''" "[]"
         default_config 8 9 10 j2_data default_config 5 6 7 "[]"] e h
  show ?thesis by blast
qed

text \<open>
  C7. A descriptor with \<^verbatim>\<open>"max_retries": 0\<close> does not get \<open>max_retries = 0\<close>: the
  \<^verbatim>\<open>||\<close> in \<^verbatim>\<open>enqueue\<close> takes 0 for a missing value and substitutes the configured
  default (here 5), and when that default is 0 as well, the \<^verbatim>\<open>||\<close> in \<^verbatim>\<open>createJob\<close>
  substitutes 3.
\<close>

theorem enqueue_max_retries_zero_not_kept:
  "enqueue zero_data (default_config(''max_retries'' \<mapsto> ''5'')) 5 6 7 []
     = Inr ([zero_row 5], Some (zero_row 5))
   \<and> enqueue zero_data (default_config(''max_retries'' \<mapsto> ''0'')) 5 6 7 []
     = Inr ([zero_row 3], Some (zero_row 3))"
  by (simp add: enqueue_defs zero_data_def zero_row_def getJob_def parse_defs)

subsection \<open>Selecting the next job\<close>


lemma order_by_limit1_Some:
  assumes "order_by_limit1 key rows = Some j"
  shows "j \<in> set rows \<and> (\<forall>r\<in>set rows. key j \<le> key r)"
proof -
  from assms obtain rest where eq: "sort_key key rows = j # rest"
    by (auto simp: order_by_limit1_def split: list.splits)
  have "set (j # rest) = set rows" using eq by (metis set_sort)
  moreover have "sorted (map key (j # rest))" using eq by (metis sorted_sort_key)
  ultimately show ?thesis by auto
qed


lemma getNextPendingJob_Some:
  "getNextPendingJob s = Some j \<Longrightarrow>
   j \<in> set s \<and> state j = Pending
   \<and> (\<forall>r\<in>set s. state r = Pending \<longrightarrow> iso_key (created_at j) \<le> iso_key (created_at r))"
  unfolding getNextPendingJob_def by (drule order_by_limit1_Some) auto


lemma getRetryableJobs_Some:
  "getRetryableJobs now s = Some j \<Longrightarrow>
   j \<in> set s \<and> retryable now j
   \<and> (\<forall>r\<in>set s. retryable now r \<longrightarrow>
          map_option iso_key (next_retry_at j) \<le> map_option iso_key (next_retry_at r))"
  unfolding getRetryableJobs_def by (drule order_by_limit1_Some) auto






lemmas select_defs =
  getNextJob_def getNextPendingJob_def getRetryableJobs_def retryable_def order_by_limit1_def
  requeue_updates_def process_step_def iso_key_def



subsection \<open>Runs of the program on concrete inputs\<close>

text \<open>
  C3. The scenario run on the code, with the default configuration (\<open>backoff_base\<close> 2)
  and a worker turn at each moment the job is due. Enqueued at time 0 with
  \<open>max_retries = 3\<close>, the job fails at 0 (\<open>attempts = 1\<close>, retry at 0 + 2000 ms), is
  reset to pending and fails at 2000 (\<open>attempts = 2\<close>, retry at 2000 + 4000 ms), is
  reset to pending again and at 6000 its third failure makes \<open>attempts = 3 \<ge> 3\<close>: the
  code makes the job \<open>Dead\<close> there, with no third retry and no delay of 8 seconds, and
  a later worker turn finds nothing to execute.
\<close>

theorem third_failure_is_dead:
  "enqueue j1_data default_config 0 0 0 []
     = Inr ([j1_row Pending 0 None 0 None], Some (j1_row Pending 0 None 0 None))
   \<and> process_step ''w1'' always_fail default_config 0 0 [j1_row Pending 0 None 0 None]
     = ([j1_row Failed 1 (Some 2000) 0 (Some exit1_message)],
        Some (Inr (FailedRun exit1_message 1 (Some 2000))))
   \<and> process_step ''w1'' always_fail default_config 2000 2000
        [j1_row Failed 1 (Some 2000) 0 (Some exit1_message)]
     = ([j1_row Failed 2 (Some 6000) 2000 (Some exit1_message)],
        Some (Inr (FailedRun exit1_message 2 (Some 6000))))
   \<and> process_step ''w1'' always_fail default_config 6000 6000
        [j1_row Failed 2 (Some 6000) 2000 (Some exit1_message)]
     = ([j1_row Dead 3 None 6000 (Some exit1_message)],
        Some (Inr (FailedRun exit1_message 3 None)))
   \<and> process_step ''w1'' always_fail default_config 14000 14000
        [j1_row Dead 3 None 6000 (Some exit1_message)]
     = ([j1_row Dead 3 None 6000 (Some exit1_message)], None)"
proof -
  have b: "getBackoffBase default_config = Some 2" by (simp add: parse_defs)
  have e: "enqueue j1_data default_config 0 0 0 []
     = Inr ([j1_row Pending 0 None 0 None], Some (j1_row Pending 0 None 0 None))"
    by (simp add: enqueue_defs j1_data_def j1_row_def getJob_def parse_defs)
  have s1: "process_step ''w1'' always_fail default_config 0 0 [j1_row Pending 0 None 0 None]
     = ([j1_row Failed 1 (Some 2000) 0 (Some exit1_message)],
        Some (Inr (FailedRun exit1_message 1 (Some 2000))))"
    by (simp add: b select_defs store_defs exec_defs or_str_def j1_row_def always_fail_def
          exit1_message_def Let_def)
  have s2: "process_step ''w1'' always_fail default_config 2000 2000
        [j1_row Failed 1 (Some 2000) 0 (Some exit1_message)]
     = ([j1_row Failed 2 (Some 6000) 2000 (Some exit1_message)],
        Some (Inr (FailedRun exit1_message 2 (Some 6000))))"
    by (simp add: b select_defs store_defs exec_defs or_str_def j1_row_def always_fail_def
          exit1_message_def Let_def numeral_2_eq_2)
  have s3: "process_step ''w1'' always_fail default_config 6000 6000
        [j1_row Failed 2 (Some 6000) 2000 (Some exit1_message)]
     = ([j1_row Dead 3 None 6000 (Some exit1_message)],
        Some (Inr (FailedRun exit1_message 3 None)))"
    by (simp add: b select_defs store_defs exec_defs or_str_def j1_row_def always_fail_def
          exit1_message_def Let_def numeral_3_eq_3)
  have s4: "process_step ''w1'' always_fail default_config 14000 14000
        [j1_row Dead 3 None 6000 (Some exit1_message)]
     = ([j1_row Dead 3 None 6000 (Some exit1_message)], None)"
    by (simp add: select_defs store_defs j1_row_def)
  from e s1 s2 s3 s4 show ?thesis by blast
qed

text \<open>
  C4. With \<^verbatim>\<open>backoff_base\<close> 1e13 the first failure of a job that has retries left
  (\<open>attempts + 1 = 1 < 3\<close>) sets no \<open>next_retry_at\<close>. The delay is 1e13 seconds, the sum
  with the clock is beyond what a \<^verbatim>\<open>Date\<close> holds, and \<^verbatim>\<open>toISOString\<close> throws inside
  the \<^verbatim>\<open>catch\<close> block. \<^verbatim>\<open>executeJob\<close> ends with that \<^verbatim>\<open>RangeError\<close> after the lock
  and before any update: the row stays \<open>Processing\<close> under the worker, with
  \<open>attempts\<close> 0 and no retry time, and no later worker turn picks it up.
\<close>

theorem huge_backoff_sets_no_retry_time:
  "getBackoffBase cfg_1e13 = Some 10000000000000
   \<and> int (attempts (j1_row Pending 0 None 0 None)) + 1 < max_retries (j1_row Pending 0 None 0 None)
   \<and> executeJob (j1_row Pending 0 None 0 None) ''w1'' (ExecError (Some exit1_message)) cfg_1e13
        1700000000000 1700000000001 1700000000001 [j1_row Pending 0 None 0 None]
     = ([(j1_row Processing 0 None 1700000000000 None) \<lparr> worker_id := Some ''w1'' \<rparr>],
        Inl RangeError)
   \<and> process_step ''w2'' always_fail cfg_1e13 1700000100000 1700000100000
        [(j1_row Processing 0 None 1700000000000 None) \<lparr> worker_id := Some ''w1'' \<rparr>]
     = ([(j1_row Processing 0 None 1700000000000 None) \<lparr> worker_id := Some ''w1'' \<rparr>], None)"
proof -
  have b: "getBackoffBase cfg_1e13 = Some 10000000000000"
    by (simp add: cfg_1e13_def parse_defs)
  have a: "int (attempts (j1_row Pending 0 None 0 None)) + 1 < max_retries (j1_row Pending 0 None 0 None)"
    by (simp add: j1_row_def)
  have e: "executeJob (j1_row Pending 0 None 0 None) ''w1'' (ExecError (Some exit1_message)) cfg_1e13
        1700000000000 1700000000001 1700000000001 [j1_row Pending 0 None 0 None]
     = ([(j1_row Processing 0 None 1700000000000 None) \<lparr> worker_id := Some ''w1'' \<rparr>],
        Inl RangeError)"
    by (simp add: b store_defs exec_defs or_str_def j1_row_def exit1_message_def Let_def)
  have p: "process_step ''w2'' always_fail cfg_1e13 1700000100000 1700000100000
        [(j1_row Processing 0 None 1700000000000 None) \<lparr> worker_id := Some ''w1'' \<rparr>]
     = ([(j1_row Processing 0 None 1700000000000 None) \<lparr> worker_id := Some ''w1'' \<rparr>], None)"
    by (simp add: select_defs store_defs j1_row_def)
  from b a e p show ?thesis by blast
qed

text \<open>
  C8. Two workers and one failed job that is due. Worker \<open>wA\<close> is inside
  \<^verbatim>\<open>getNextJob\<close>: it finds no pending job and \<^verbatim>\<open>getRetryableJobs\<close> gives it the failed
  row. Before its next statement worker \<open>wB\<close> runs \<^verbatim>\<open>getNextJob\<close>, which makes the job
  pending, and locks it in \<^verbatim>\<open>executeJob\<close>. While \<open>wB\<close> runs the command, \<open>wA\<close>
  goes on with the \<^verbatim>\<open>updateJob\<close> of \<^verbatim>\<open>getNextJob\<close>: the row is \<open>Pending\<close> again and
  still carries the \<open>worker_id\<close> of \<open>wB\<close>. \<open>wA\<close> then locks the job too.
\<close>

theorem requeue_race_keeps_worker_id:
  "getNextPendingJob [j1_row Failed 1 (Some 2000) 0 (Some exit1_message)] = None
   \<and> getRetryableJobs 2000 [j1_row Failed 1 (Some 2000) 0 (Some exit1_message)]
       = Some (j1_row Failed 1 (Some 2000) 0 (Some exit1_message))
   \<and> getNextJob 2000 2000 [j1_row Failed 1 (Some 2000) 0 (Some exit1_message)]
       = ([j1_row Pending 1 None 2000 (Some exit1_message)],
          Some (j1_row Pending 1 None 2000 (Some exit1_message)))
   \<and> lockJob ''j1'' ''wB'' 2001 [j1_row Pending 1 None 2000 (Some exit1_message)]
       = ([(j1_row Processing 1 None 2001 (Some exit1_message)) \<lparr> worker_id := Some ''wB'' \<rparr>],
          True)
   \<and> updateJob (job_id (j1_row Failed 1 (Some 2000) 0 (Some exit1_message))) requeue_updates 2002
        [(j1_row Processing 1 None 2001 (Some exit1_message)) \<lparr> worker_id := Some ''wB'' \<rparr>]
       = ([(j1_row Pending 1 None 2002 (Some exit1_message)) \<lparr> worker_id := Some ''wB'' \<rparr>],
          Some ((j1_row Pending 1 None 2002 (Some exit1_message)) \<lparr> worker_id := Some ''wB'' \<rparr>))
   \<and> state ((j1_row Pending 1 None 2002 (Some exit1_message)) \<lparr> worker_id := Some ''wB'' \<rparr>)
       = Pending
   \<and> worker_id ((j1_row Pending 1 None 2002 (Some exit1_message)) \<lparr> worker_id := Some ''wB'' \<rparr>)
       = Some ''wB''
   \<and> lockJob ''j1'' ''wA'' 2003
        [(j1_row Pending 1 None 2002 (Some exit1_message)) \<lparr> worker_id := Some ''wB'' \<rparr>]
       = ([(j1_row Processing 1 None 2003 (Some exit1_message)) \<lparr> worker_id := Some ''wA'' \<rparr>],
          True)"
  by (simp add: select_defs store_defs j1_row_def)

subsection \<open>Invariants of the reachable tables\<close>

lemma ids_unique_map:
  "(\<And>r. job_id (g r) = job_id r) \<Longrightarrow> ids_unique (map g s) = ids_unique s"
  by (simp add: ids_unique_def comp_def)

lemma held_known_map:
  assumes "held_known s H"
    and "\<And>r. job_id (g r) = job_id r" and "\<And>r. max_retries (g r) = max_retries r"
  shows "held_known (map g s) H"
  using assms unfolding held_known_def by (metis (no_types, lifting) image_eqI set_map)

lemma max_retries_lock_row: "max_retries (lock_row i w t r) = max_retries r"
  by (simp add: lock_row_def)

lemma max_retries_update_row: "max_retries (update_row i u t r) = max_retries r"
  by (simp add: update_row_def apply_updates_def)

lemma unique_row:
  "ids_unique s \<Longrightarrow> r \<in> set s \<Longrightarrow> r' \<in> set s \<Longrightarrow> job_id r = job_id r' \<Longrightarrow> r = r'"
  unfolding ids_unique_def by (metis distinct_map inj_onD)

text \<open>What each operation does to the table: it appends a pending row, or it maps a
  row function over the table.\<close>

lemma fst_finishJob_cases:
  "fst (finishJob job outcome cfg t2 t3 s) = s
   \<or> fst (finishJob job outcome cfg t2 t3 s) = map (update_row (job_id job) completed_updates t3) s
   \<or> (\<exists>msg. fst (finishJob job outcome cfg t2 t3 s)
              = map (update_row (job_id job) (dead_updates (attempts job + 1) msg) t3) s)
   \<or> (\<exists>msg nx. int (attempts job) + 1 < max_retries job
         \<and> fst (finishJob job outcome cfg t2 t3 s)
              = map (update_row (job_id job) (failed_updates (attempts job + 1) nx msg) t3) s)"
proof (cases outcome)
  case (ExecOk out err)
  have "fst (finishJob job (ExecOk out err) cfg t2 t3 s)
          = map (update_row (job_id job) completed_updates t3) s"
    by (simp add: finishJob_ok fst_updateJob)
  then show ?thesis unfolding ExecOk by blast
next
  case (ExecError m)
  show ?thesis
  proof (cases "max_retries job \<le> int (attempts job) + 1")
    case True
    have "fst (finishJob job (ExecError m) cfg t2 t3 s)
            = map (update_row (job_id job)
                    (dead_updates (attempts job + 1) (or_str m ''Command execution failed'')) t3) s"
      by (simp add: finishJob_dead[OF True] fst_updateJob)
    then show ?thesis unfolding ExecError by blast
  next
    case False
    then have lt: "int (attempts job) + 1 < max_retries job" by simp
    show ?thesis
    proof (cases "retry_time (getBackoffBase cfg) t2 (attempts job + 1)")
      case (Inl e)
      have "fst (finishJob job (ExecError m) cfg t2 t3 s) = s"
        by (simp add: finishJob_throw[OF lt Inl])
      then show ?thesis unfolding ExecError by blast
    next
      case (Inr nx)
      have "fst (finishJob job (ExecError m) cfg t2 t3 s)
              = map (update_row (job_id job)
                      (failed_updates (attempts job + 1) nx (or_str m ''Command execution failed'')) t3) s"
        by (simp add: finishJob_retry[OF lt Inr] fst_updateJob)
      then show ?thesis unfolding ExecError using lt by blast
    qed
  qed
qed

lemma fst_getNextJob_cases:
  "getNextJob t1 t2 s = (s', Some r) \<Longrightarrow>
   (s' = s \<and> r \<in> set s)
   \<or> (\<exists>j\<in>set s. state j = Failed \<and> s' = map (update_row (job_id j) requeue_updates t2) s
         \<and> r \<in> set s')"
proof -
  assume a: "getNextJob t1 t2 s = (s', Some r)"
  show ?thesis
  proof (cases "getNextPendingJob s")
    case (Some j)
    with a have "s' = s" "r = j" by (simp_all add: getNextJob_def)
    with getNextPendingJob_Some[OF Some] show ?thesis by simp
  next
    case None
    show ?thesis
    proof (cases "getRetryableJobs t1 s")
      case None
      with \<open>getNextPendingJob s = None\<close> a show ?thesis by (simp add: getNextJob_def)
    next
      case (Some j)
      with \<open>getNextPendingJob s = None\<close> a
      have s': "s' = map (update_row (job_id j) requeue_updates t2) s"
        and r: "getJob s' (job_id j) = Some r"
        by (auto simp: getNextJob_def Let_def fst_updateJob)
      from getRetryableJobs_Some[OF Some] have j: "j \<in> set s" "state j = Failed"
        by (simp_all add: retryable_def)
      from r have "r \<in> set s'" by (auto dest: getJob_Some_D)
      with s' j show ?thesis by blast
    qed
  qed
qed

lemma fst_retryFromDLQ_cases:
  "fst (retryFromDLQ i t s) = s
   \<or> (\<exists>j\<in>set s. job_id j = i \<and> state j = Dead
         \<and> fst (retryFromDLQ i t s)
              = map (update_row i retry_updates t) s)"
  by (auto simp: retryFromDLQ_def fst_updateJob split: option.splits dest: getJob_Some_D)

lemma rows_ok_map:
  assumes "rows_ok s" and "\<And>r. job_id (g r) = job_id r"
    and "\<And>r. r \<in> set s \<Longrightarrow> failed_is_scheduled r \<Longrightarrow> failed_is_scheduled (g r)"
  shows "rows_ok (map g s)"
  using assms by (auto simp: rows_ok_def ids_unique_map)

lemma rows_ok_lockJob: "rows_ok s \<Longrightarrow> rows_ok (fst (lockJob i w t s))"
  unfolding fst_lockJob
  by (erule rows_ok_map)
     (auto simp: lock_row_def lock_matches_def failed_is_scheduled_def)

lemmas row_inv_defs =
  update_row_def apply_updates_def no_updates_def failed_is_scheduled_def

lemma rows_ok_moveToDLQ: "rows_ok s \<Longrightarrow> rows_ok (fst (moveToDLQ i t s))"
  unfolding moveToDLQ_def fst_updateJob
  by (erule rows_ok_map) (auto simp: row_inv_defs)

lemma rows_ok_to_pending:
  assumes "rows_ok s" and "set_state u = Some Pending"
  shows "rows_ok (fst (updateJob i u t s))"
  unfolding fst_updateJob using assms(1)
  by (rule rows_ok_map) (use assms(2) in \<open>auto simp: row_inv_defs\<close>)

lemma rows_ok_retryFromDLQ: "rows_ok s \<Longrightarrow> rows_ok (fst (retryFromDLQ i t s))"
  by (auto simp: retryFromDLQ_def retry_updates_def no_updates_def split: option.splits
           intro!: rows_ok_to_pending)

lemma rows_ok_getNextJob:
  "rows_ok s \<Longrightarrow> getNextJob t1 t2 s = (s', Some r) \<Longrightarrow> rows_ok s'"
  by (auto simp: getNextJob_def Let_def requeue_updates_def no_updates_def
           split: option.splits intro!: rows_ok_to_pending)

lemma update_row_to_failed:
  assumes "job_id r = i \<longrightarrow> int n < max_retries r" and "failed_is_scheduled r"
  shows "failed_is_scheduled (update_row i (failed_updates n nx msg) t r)"
  using assms by (auto simp: update_row_def apply_failed failed_is_scheduled_def)

lemma rows_ok_finishJob:
  assumes ok: "rows_ok s" and held: "held_known s H" and job: "job \<in> H"
  shows "rows_ok (fst (finishJob job outcome cfg t2 t3 s))"
proof -
  from held job obtain r0 where r0: "r0 \<in> set s" "job_id r0 = job_id job"
      "max_retries r0 = max_retries job"
    by (auto simp: held_known_def)
  have same: "max_retries r = max_retries job" if "r \<in> set s" "job_id r = job_id job" for r
    using unique_row[of s r r0] ok r0 that by (auto simp: rows_ok_def)
  from fst_finishJob_cases[of job outcome cfg t2 t3 s]
  consider (unchanged) "fst (finishJob job outcome cfg t2 t3 s) = s"
    | (completed) "fst (finishJob job outcome cfg t2 t3 s)
               = map (update_row (job_id job) completed_updates t3) s"
    | (dead) msg where "fst (finishJob job outcome cfg t2 t3 s)
               = map (update_row (job_id job) (dead_updates (attempts job + 1) msg) t3) s"
    | (failed) msg nx where "int (attempts job) + 1 < max_retries job"
        "fst (finishJob job outcome cfg t2 t3 s)
               = map (update_row (job_id job) (failed_updates (attempts job + 1) nx msg) t3) s"
    by blast
  then show ?thesis
  proof cases
    case unchanged
    then show ?thesis using ok by simp
  next
    case completed
    show ?thesis unfolding completed
      by (rule rows_ok_map[OF ok]) (auto simp: row_inv_defs completed_updates_def)
  next
    case dead
    show ?thesis unfolding dead
      by (rule rows_ok_map[OF ok]) (auto simp: row_inv_defs dead_updates_def)
  next
    case failed
    show ?thesis unfolding failed(2)
    proof (rule rows_ok_map[OF ok])
      show "job_id (update_row (job_id job) (failed_updates (attempts job + 1) nx msg) t3 r)
              = job_id r" for r
        by (rule job_id_update_row)
    next
      fix r assume r: "r \<in> set s" "failed_is_scheduled r"
      have "job_id r = job_id job \<longrightarrow> int (attempts job + 1) < max_retries r"
        using same[OF r(1)] failed(1) by auto
      then show "failed_is_scheduled
                   (update_row (job_id job) (failed_updates (attempts job + 1) nx msg) t3 r)"
        using r by (intro update_row_to_failed)
    qed
  qed
qed

lemma held_known_finishJob:
  "held_known s H \<Longrightarrow> held_known (fst (finishJob job outcome cfg t2 t3 s)) H"
  using fst_finishJob_cases[of job outcome cfg t2 t3 s]
  by (auto intro!: held_known_map simp: job_id_update_row max_retries_update_row)

lemma held_known_updateJob:
  "held_known s H \<Longrightarrow> held_known (fst (updateJob i u t s)) H"
  unfolding fst_updateJob
  by (erule held_known_map) (simp_all add: job_id_update_row max_retries_update_row)

lemma held_known_insert:
  "held_known s H \<Longrightarrow> r \<in> set s \<Longrightarrow> held_known s (insert r H)"
  by (auto simp: held_known_def)

lemma reachable_inv: "reachable s H \<Longrightarrow> rows_ok s \<and> held_known s H"
proof (induction rule: reachable.induct)
  case r_init
  show ?case by (simp add: rows_ok_def ids_unique_def held_known_def)
next
  case (r_enqueue s H d cfg t1 t2 t3 s' j)
  from enqueue_Inr[OF r_enqueue.hyps(2)] obtain row where
    row: "s' = s @ [row]" "getJob s (job_id row) = None" "state row = Pending"
         "worker_id row = None"
    by auto
  have "job_id row \<notin> job_id ` set s" using row(2) by (simp add: getJob_None_iff)
  then have "rows_ok s'"
    using r_enqueue.IH row
    by (auto simp: rows_ok_def ids_unique_def failed_is_scheduled_def)
  moreover have "held_known s' H"
    using r_enqueue.IH row(1) by (auto simp: held_known_def)
  ultimately show ?case by simp
next
  case (r_read s H i r)
  then show ?case by (auto intro: held_known_insert dest: getJob_Some_D)
next
  case (r_getNextJob s H t1 t2 s' r)
  have ok: "rows_ok s'" using r_getNextJob by (auto intro: rows_ok_getNextJob)
  from fst_getNextJob_cases[OF r_getNextJob.hyps(2)]
  have "held_known s' H \<and> r \<in> set s'"
    using r_getNextJob.IH
    by (auto intro!: held_known_map simp: job_id_update_row max_retries_update_row)
  with ok show ?case by (auto intro: held_known_insert)
next
  case (r_requeue s H job t)
  then show ?case
    by (auto simp: requeue_updates_def no_updates_def
             intro!: rows_ok_to_pending held_known_updateJob)
next
  case (r_lockJob s H i w t)
  have "held_known (map (lock_row i w t) s) H"
    using r_lockJob.IH by (auto intro!: held_known_map simp: job_id_lock_row max_retries_lock_row)
  then show ?case
    using r_lockJob.IH rows_ok_lockJob[of s i w t] by (simp add: fst_lockJob)
next
  case (r_finishJob s H job outcome cfg t1 t2)
  then show ?case by (auto intro: rows_ok_finishJob held_known_finishJob)
next
  case (r_moveToDLQ s H i t)
  have "held_known (fst (moveToDLQ i t s)) H"
    unfolding moveToDLQ_def fst_updateJob using r_moveToDLQ.IH
    by (auto intro!: held_known_map simp: job_id_update_row max_retries_update_row)
  then show ?case
    using r_moveToDLQ.IH rows_ok_moveToDLQ[of s i t] by simp
next
  case (r_retryFromDLQ s H i t)
  have "held_known (fst (retryFromDLQ i t s)) H"
    using fst_retryFromDLQ_cases[of i t s] r_retryFromDLQ.IH
    by (auto intro!: held_known_map simp: job_id_update_row max_retries_update_row)
  with r_retryFromDLQ.IH show ?case by (auto intro: rows_ok_retryFromDLQ)
next
  case (r_retry s H job t)
  then show ?case
    by (auto simp: retry_updates_def no_updates_def
             intro!: rows_ok_to_pending held_known_updateJob)
qed

lemma reachable_j1_pending: "reachable [j1_row Pending 0 None 0 None] {}"
proof -
  have "enqueue j1_data default_config 0 0 0 []
          = Inr ([j1_row Pending 0 None 0 None], Some (j1_row Pending 0 None 0 None))"
    by (simp add: enqueue_defs j1_data_def j1_row_def getJob_def parse_defs)
  from r_enqueue[OF r_init this] show ?thesis .
qed

lemma reachable_j1_locked: "reachable [j1_locked] {j1_row Pending 0 None 0 None}"
proof -
  have "getJob [j1_row Pending 0 None 0 None] ''j1'' = Some (j1_row Pending 0 None 0 None)"
    by (simp add: getJob_def j1_row_def)
  from r_read[OF reachable_j1_pending this]
  have "reachable [j1_row Pending 0 None 0 None] {j1_row Pending 0 None 0 None}" .
  from r_lockJob[OF this, of "''j1''" "''w1''" 1]
  show ?thesis by (simp add: store_defs j1_locked_def j1_row_def)
qed

lemma reachable_j1_failed:
  "reachable [j1_row Failed 1 (Some 2001) 2 (Some ''boom'')] {j1_row Pending 0 None 0 None}"
proof -
  have b: "getBackoffBase default_config = Some 2" by (simp add: parse_defs)
  have "fst (finishJob (j1_row Pending 0 None 0 None) (ExecError (Some ''boom''))
               default_config 1 2 [j1_locked])
          = [j1_row Failed 1 (Some 2001) 2 (Some ''boom'')]"
    by (simp add: b store_defs exec_defs or_str_def j1_locked_def j1_row_def Let_def)
  with r_finishJob[OF reachable_j1_locked, of "j1_row Pending 0 None 0 None"
         "ExecError (Some ''boom'')" default_config 1 2]
  show ?thesis by simp
qed

text \<open>The table of the race above is reachable.\<close>

lemma reachable_requeue_race:
  "reachable [(j1_row Pending 1 None 2002 (Some exit1_message)) \<lparr> worker_id := Some ''wB'' \<rparr>]
     {j1_row Pending 1 None 2000 (Some exit1_message),
      j1_row Failed 1 (Some 2000) 0 (Some exit1_message), j1_row Pending 0 None 0 None}"
proof -
  let ?f = "j1_row Failed 1 (Some 2000) 0 (Some exit1_message)"
  let ?p = "j1_row Pending 0 None 0 None"
  have r0: "reachable [?p] {?p}"
    using r_read[OF reachable_j1_pending, of "''j1''" ?p] by (simp add: getJob_def j1_row_def)
  have b: "getBackoffBase default_config = Some 2" by (simp add: parse_defs)
  have "fst (lockJob ''j1'' ''w1'' 0 [?p])
          = [(j1_row Processing 0 None 0 None) \<lparr> worker_id := Some ''w1'' \<rparr>]"
    by (simp add: store_defs j1_row_def)
  with r_lockJob[OF r0, of "''j1''" "''w1''" 0]
  have r1: "reachable [(j1_row Processing 0 None 0 None) \<lparr> worker_id := Some ''w1'' \<rparr>] {?p}"
    by simp
  have "fst (finishJob ?p (ExecError (Some exit1_message)) default_config 0 0
               [(j1_row Processing 0 None 0 None) \<lparr> worker_id := Some ''w1'' \<rparr>]) = [?f]"
    by (simp add: b store_defs exec_defs or_str_def j1_row_def exit1_message_def Let_def)
  with r_finishJob[OF r1, of ?p "ExecError (Some exit1_message)" default_config 0 0]
  have r2: "reachable [?f] {?p}" by simp
  have r3: "reachable [?f] {?f, ?p}"
    using r_read[OF r2, of "''j1''" ?f] by (simp add: getJob_def j1_row_def)
  have "getNextJob 2000 2000 [?f]
          = ([j1_row Pending 1 None 2000 (Some exit1_message)],
             Some (j1_row Pending 1 None 2000 (Some exit1_message)))"
    by (simp add: select_defs store_defs j1_row_def)
  from r_getNextJob[OF r3 this]
  have r4: "reachable [j1_row Pending 1 None 2000 (Some exit1_message)]
              (insert (j1_row Pending 1 None 2000 (Some exit1_message)) {?f, ?p})" .
  have "fst (lockJob ''j1'' ''wB'' 2001 [j1_row Pending 1 None 2000 (Some exit1_message)])
          = [(j1_row Processing 1 None 2001 (Some exit1_message)) \<lparr> worker_id := Some ''wB'' \<rparr>]"
    by (simp add: store_defs j1_row_def)
  with r_lockJob[OF r4, of "''j1''" "''wB''" 2001]
  have r5: "reachable
              [(j1_row Processing 1 None 2001 (Some exit1_message)) \<lparr> worker_id := Some ''wB'' \<rparr>]
              (insert (j1_row Pending 1 None 2000 (Some exit1_message)) {?f, ?p})"
    by simp
  have f: "?f \<in> insert (j1_row Pending 1 None 2000 (Some exit1_message)) {?f, ?p}"
    "state ?f = Failed"
    by (simp_all add: j1_row_def)
  have "fst (updateJob (job_id ?f) requeue_updates 2002
               [(j1_row Processing 1 None 2001 (Some exit1_message)) \<lparr> worker_id := Some ''wB'' \<rparr>])
          = [(j1_row Pending 1 None 2002 (Some exit1_message)) \<lparr> worker_id := Some ''wB'' \<rparr>]"
    by (simp add: select_defs store_defs j1_row_def)
  with r_requeue[OF r5 f, of 2002]
  have "reachable
          [(j1_row Pending 1 None 2002 (Some exit1_message)) \<lparr> worker_id := Some ''wB'' \<rparr>]
          (insert (j1_row Pending 1 None 2000 (Some exit1_message)) {?f, ?p})"
    by simp
  then show ?thesis by simp
qed

text \<open>
  C9. In every reachable table, with the statements of different processes interleaved
  in any order, a \<open>Failed\<close> job has a \<open>next_retry_at\<close> and
  \<open>attempts < max_retries\<close>. So the job that \<^verbatim>\<open>getRetryableJobs\<close> selects, at whatever
  time, never has \<open>next_retry_at\<close> null: the \<^verbatim>\<open>IS NULL\<close> branch of its query selects
  nothing.
\<close>

theorem failed_jobs_are_scheduled:
  "reachable s H \<Longrightarrow>
     (\<forall>r\<in>set s. state r = Failed \<longrightarrow> next_retry_at r \<noteq> None \<and> int (attempts r) < max_retries r)
   \<and> (\<forall>now j. getRetryableJobs now s = Some j \<longrightarrow> next_retry_at j \<noteq> None)"
proof -
  assume "reachable s H"
  then have inv: "\<forall>r\<in>set s. state r = Failed \<longrightarrow>
                    next_retry_at r \<noteq> None \<and> int (attempts r) < max_retries r"
    by (drule_tac reachable_inv) (auto simp: rows_ok_def failed_is_scheduled_def)
  have "next_retry_at j \<noteq> None" if "getRetryableJobs now s = Some j" for now j
    using getRetryableJobs_Some[OF that] inv by (auto simp: retryable_def)
  with inv show ?thesis by blast
qed

theorem failed_jobs_are_scheduled_witness:
  "reachable [j1_row Failed 1 (Some 2001) 2 (Some ''boom'')] {j1_row Pending 0 None 0 None}
   \<and> state (j1_row Failed 1 (Some 2001) 2 (Some ''boom'')) = Failed
   \<and> next_retry_at (j1_row Failed 1 (Some 2001) 2 (Some ''boom'')) \<noteq> None
   \<and> int (attempts (j1_row Failed 1 (Some 2001) 2 (Some ''boom'')))
       < max_retries (j1_row Failed 1 (Some 2001) 2 (Some ''boom''))
   \<and> getRetryableJobs 2001 [j1_row Failed 1 (Some 2001) 2 (Some ''boom'')]
       = Some (j1_row Failed 1 (Some 2001) 2 (Some ''boom''))"
proof -
  let ?r = "j1_row Failed 1 (Some 2001) 2 (Some ''boom'')"
  have f: "state ?r = Failed" by (simp add: j1_row_def)
  have g: "getRetryableJobs 2001 [?r] = Some ?r"
    by (simp add: select_defs j1_row_def)
  from failed_jobs_are_scheduled[OF reachable_j1_failed] f
  have "next_retry_at ?r \<noteq> None \<and> int (attempts ?r) < max_retries ?r" by simp
  with reachable_j1_failed f g show ?thesis by blast
qed

end
